theory Spec2Isabelle
  imports Complex_Main "HOL-Library.Char_ord" "HOL-Library.List_Lexorder"
begin

section \<open>The stimpl interpreter (\<^verbatim>\<open>stimpl/runtime.py\<close>)\<close>

text \<open>
  The interpreter is one recursive function \<^verbatim>\<open>evaluate(expression, state)\<close> that returns
  the triple (value, type, state) or raises. The embedding below follows it case by case.

  \<^item> Runtime values are Python objects: \<^verbatim>\<open>None\<close>, an \<^verbatim>\<open>int\<close> (unbounded), a
    \<^verbatim>\<open>float\<close>, a \<^verbatim>\<open>str\<close> or a \<^verbatim>\<open>bool\<close>.
  \<^item> The type tags of \<^verbatim>\<open>stimpl/types.py\<close> are a closed enumeration, equal iff the same tag.
  \<^item> The expression classes of \<^verbatim>\<open>stimpl/expression.py\<close> are a datatype with one constructor
    for each class that \<^verbatim>\<open>evaluate\<close> matches, and one for any other node.
  \<^item> Host floating-point arithmetic is a parameter of the embedding (a record of the
    primitives \<^verbatim>\<open>+ - * / < <= ==\<close> on \<^verbatim>\<open>float\<close>), so nothing is assumed about rounding.
  \<^item> An exception is a value \<open>Inl e\<close>; a normal return is \<open>Inr (value, type, state)\<close>.
  \<^item> The \<^verbatim>\<open>while True\<close> loop of the \<^verbatim>\<open>While\<close> case may run forever, so \<open>evaluate\<close> takes
    a bound on loop iterations and returns \<open>None\<close> when the bound is used up.
\<close>

subsection \<open>Values, type tags and errors\<close>

datatype 'f py_value =
    VNone
  | VInt int
  | VFloat 'f
  | VStr string
  | VBool bool

text \<open>Modelled from the spec: \<^verbatim>\<open>stimpl/types.py\<close>, which declares the classes
  \<^verbatim>\<open>Unit, Integer, FloatingPoint, String, Boolean\<close>, is not among the sources. The spec's
  RuntimeType is a closed set of five tags, two types being equal iff they are the same
  tag; \<^verbatim>\<open>evaluate\<close> names the same five classes.\<close>

datatype Type = Unit | Integer | FloatingPoint | String | Boolean

text \<open>
  Modelled from the spec: \<^verbatim>\<open>stimpl/errors.py\<close>, which declares the exception classes
  \<^verbatim>\<open>InterpSyntaxError\<close> and \<^verbatim>\<open>InterpTypeError\<close> that \<^verbatim>\<open>evaluate\<close> raises, is not among the
  sources. They are the spec's two error kinds SyntaxFault and TypeFault; their message
  strings are not modelled. \<open>ZeroDivisionError\<close> is the host exception of \<^verbatim>\<open>//\<close> and \<^verbatim>\<open>/\<close>.
  \<open>IllTagged\<close> is not a Python exception: it marks the places where a host operator is
  applied, under some type tag, to a value whose Python class is not the class of that
  tag. Python's dynamic behaviour there is not followed by the model. Lemma
  \<open>evaluate_well_tagged\<close> shows that it is never reached from a state whose bindings
  agree with their tags, in particular never from the empty state.
\<close>

datatype error = InterpSyntaxError | InterpTypeError | ZeroDivisionError | IllTagged

subsection \<open>Host floating point\<close>

text \<open>The primitives of Python's \<^verbatim>\<open>float\<close> that the interpreter uses. True division
  raises \<^verbatim>\<open>ZeroDivisionError\<close> on a zero divisor: \<open>f_truediv\<close> returns \<open>None\<close> then.
  \<^verbatim>\<open>a > b\<close> is \<^verbatim>\<open>b < a\<close>, \<^verbatim>\<open>a >= b\<close> is \<^verbatim>\<open>b <= a\<close> and \<^verbatim>\<open>a != b\<close> is \<^verbatim>\<open>not (a == b)\<close> on floats.\<close>

record 'f host_float =
  f_add :: "'f \<Rightarrow> 'f \<Rightarrow> 'f"
  f_sub :: "'f \<Rightarrow> 'f \<Rightarrow> 'f"
  f_mul :: "'f \<Rightarrow> 'f \<Rightarrow> 'f"
  f_truediv :: "'f \<Rightarrow> 'f \<Rightarrow> 'f option"
  f_lt :: "'f \<Rightarrow> 'f \<Rightarrow> bool"
  f_le :: "'f \<Rightarrow> 'f \<Rightarrow> bool"
  f_eq :: "'f \<Rightarrow> 'f \<Rightarrow> bool"

subsection \<open>Interpreter state\<close>

text \<open>
  \<^verbatim>\<open>class State\<close> holds \<^verbatim>\<open>variable_name\<close>, the pair \<^verbatim>\<open>value = (variable_value, variable_type)\<close>
  and \<^verbatim>\<open>next_state\<close>; \<^verbatim>\<open>class EmptyState(State)\<close> holds nothing. Only \<^verbatim>\<open>__init__\<close> assigns
  the fields, so a state is an immutable chain.
\<close>

datatype 'f State =
    EmptyState
  | State (variable_name: string) (val: "'f py_value \<times> Type") (next_state: "'f State")

definition set_value :: "'f State \<Rightarrow> string \<Rightarrow> 'f py_value \<Rightarrow> Type \<Rightarrow> 'f State" where
  "set_value self name variable_value variable_type =
     State name (variable_value, variable_type) self"

text \<open>\<^verbatim>\<open>get_value\<close>: the loop walks \<^verbatim>\<open>next_state\<close> until an \<^verbatim>\<open>EmptyState\<close> (returns \<^verbatim>\<open>None\<close>)
  or a node with the name (returns its pair).\<close>

fun get_value :: "'f State \<Rightarrow> string \<Rightarrow> ('f py_value \<times> Type) option" where
  "get_value EmptyState name = None"
| "get_value (State n v nxt) name = (if n = name then Some v else get_value nxt name)"

subsection \<open>Expressions\<close>

text \<open>
  Modelled from the spec: \<^verbatim>\<open>stimpl/expression.py\<close>, which declares the expression
  classes, is not among the sources. The constructors are the spec's expression variants
  under the class names and keyword fields that the patterns of \<^verbatim>\<open>evaluate\<close> use, one
  constructor for each class that \<^verbatim>\<open>evaluate\<close> matches; a literal carries a value of its
  own class.
  \<open>Assign\<close> carries the \<^verbatim>\<open>variable_name\<close> of its \<^verbatim>\<open>Variable\<close> node, the only part of it
  that is read. \<open>Unhandled\<close> stands for a node of any other class (the \<^verbatim>\<open>case _\<close> branch).
  \<open>Not_expr\<close> and \<open>If_expr\<close> are the classes \<^verbatim>\<open>Not\<close> and \<^verbatim>\<open>If\<close>.
\<close>

datatype 'f Expr =
    Ren
  | IntLiteral int
  | FloatingPointLiteral 'f
  | StringLiteral string
  | BooleanLiteral bool
  | Print "'f Expr"
  | Sequence "'f Expr list"
  | Program "'f Expr list"
  | Variable string
  | Assign string "'f Expr"
  | Add "'f Expr" "'f Expr"
  | Subtract "'f Expr" "'f Expr"
  | Multiply "'f Expr" "'f Expr"
  | Divide "'f Expr" "'f Expr"
  | And "'f Expr" "'f Expr"
  | Or "'f Expr" "'f Expr"
  | Not_expr "'f Expr"
  | If_expr "'f Expr" "'f Expr" "'f Expr"
  | Lt "'f Expr" "'f Expr"
  | Lte "'f Expr" "'f Expr"
  | Gt "'f Expr" "'f Expr"
  | Gte "'f Expr" "'f Expr"
  | Eq "'f Expr" "'f Expr"
  | Ne "'f Expr" "'f Expr"
  | While "'f Expr" "'f Expr"
  | Unhandled

subsection \<open>Host operators\<close>

text \<open>
  Python's operators on two operands of one class. \<open>None\<close> is returned for the operand
  pairs the model does not cover (see \<open>IllTagged\<close>).
  \<^verbatim>\<open>+\<close> adds numbers and concatenates strings; \<^verbatim>\<open>//\<close> on \<^verbatim>\<open>int\<close> rounds towards minus
  infinity, as \<open>div\<close> on \<open>int\<close> does, and raises on a zero divisor.
\<close>

fun py_add :: "'f host_float \<Rightarrow> 'f py_value \<Rightarrow> 'f py_value \<Rightarrow> 'f py_value option" where
  "py_add H (VInt a) (VInt b) = Some (VInt (a + b))"
| "py_add H (VStr a) (VStr b) = Some (VStr (a @ b))"
| "py_add H (VFloat a) (VFloat b) = Some (VFloat (f_add H a b))"
| "py_add H _ _ = None"

fun py_sub :: "'f host_float \<Rightarrow> 'f py_value \<Rightarrow> 'f py_value \<Rightarrow> 'f py_value option" where
  "py_sub H (VInt a) (VInt b) = Some (VInt (a - b))"
| "py_sub H (VFloat a) (VFloat b) = Some (VFloat (f_sub H a b))"
| "py_sub H _ _ = None"

fun py_mul :: "'f host_float \<Rightarrow> 'f py_value \<Rightarrow> 'f py_value \<Rightarrow> 'f py_value option" where
  "py_mul H (VInt a) (VInt b) = Some (VInt (a * b))"
| "py_mul H (VFloat a) (VFloat b) = Some (VFloat (f_mul H a b))"
| "py_mul H _ _ = None"

text \<open>\<^verbatim>\<open>left_result / right_result\<close> (under the tag \<^verbatim>\<open>FloatingPoint\<close>).\<close>

fun py_truediv :: "'f host_float \<Rightarrow> 'f py_value \<Rightarrow> 'f py_value \<Rightarrow> (error + 'f py_value)" where
  "py_truediv H (VFloat a) (VFloat b) =
     (case f_truediv H a b of None \<Rightarrow> Inl ZeroDivisionError | Some q \<Rightarrow> Inr (VFloat q))"
| "py_truediv H _ _ = Inl IllTagged"

text \<open>\<^verbatim>\<open>left_result // right_result\<close> (under the tag \<^verbatim>\<open>Integer\<close>).\<close>

fun py_floordiv :: "'f py_value \<Rightarrow> 'f py_value \<Rightarrow> (error + 'f py_value)" where
  "py_floordiv (VInt a) (VInt b) =
     (if b = 0 then Inl ZeroDivisionError else Inr (VInt (a div b)))"
| "py_floordiv _ _ = Inl IllTagged"

text \<open>\<^verbatim>\<open>a and b\<close>, \<^verbatim>\<open>a or b\<close>, \<^verbatim>\<open>not a\<close> and \<^verbatim>\<open>a == True\<close> on \<^verbatim>\<open>bool\<close> operands.\<close>

fun py_and :: "'f py_value \<Rightarrow> 'f py_value \<Rightarrow> 'f py_value option" where
  "py_and (VBool a) (VBool b) = Some (VBool (a \<and> b))"
| "py_and _ _ = None"

fun py_or :: "'f py_value \<Rightarrow> 'f py_value \<Rightarrow> 'f py_value option" where
  "py_or (VBool a) (VBool b) = Some (VBool (a \<or> b))"
| "py_or _ _ = None"

fun py_not :: "'f py_value \<Rightarrow> 'f py_value option" where
  "py_not (VBool a) = Some (VBool (\<not> a))"
| "py_not _ = None"

fun py_is_True :: "'f py_value \<Rightarrow> bool option" where
  "py_is_True (VBool a) = Some a"
| "py_is_True _ = None"

text \<open>The comparisons. Strings compare lexicographically by character code, \<^verbatim>\<open>False < True\<close>.\<close>

fun py_lt :: "'f host_float \<Rightarrow> 'f py_value \<Rightarrow> 'f py_value \<Rightarrow> bool option" where
  "py_lt H (VInt a) (VInt b) = Some (a < b)"
| "py_lt H (VBool a) (VBool b) = Some (a < b)"
| "py_lt H (VStr a) (VStr b) = Some (a < b)"
| "py_lt H (VFloat a) (VFloat b) = Some (f_lt H a b)"
| "py_lt H _ _ = None"

fun py_le :: "'f host_float \<Rightarrow> 'f py_value \<Rightarrow> 'f py_value \<Rightarrow> bool option" where
  "py_le H (VInt a) (VInt b) = Some (a \<le> b)"
| "py_le H (VBool a) (VBool b) = Some (a \<le> b)"
| "py_le H (VStr a) (VStr b) = Some (a \<le> b)"
| "py_le H (VFloat a) (VFloat b) = Some (f_le H a b)"
| "py_le H _ _ = None"

definition py_gt :: "'f host_float \<Rightarrow> 'f py_value \<Rightarrow> 'f py_value \<Rightarrow> bool option" where
  "py_gt H a b = py_lt H b a"

definition py_ge :: "'f host_float \<Rightarrow> 'f py_value \<Rightarrow> 'f py_value \<Rightarrow> bool option" where
  "py_ge H a b = py_le H b a"

fun py_eq :: "'f host_float \<Rightarrow> 'f py_value \<Rightarrow> 'f py_value \<Rightarrow> bool option" where
  "py_eq H (VInt a) (VInt b) = Some (a = b)"
| "py_eq H (VBool a) (VBool b) = Some (a = b)"
| "py_eq H (VStr a) (VStr b) = Some (a = b)"
| "py_eq H (VFloat a) (VFloat b) = Some (f_eq H a b)"
| "py_eq H _ _ = None"

definition py_ne :: "'f host_float \<Rightarrow> 'f py_value \<Rightarrow> 'f py_value \<Rightarrow> bool option" where
  "py_ne H a b = map_option Not (py_eq H a b)"

subsection \<open>Outcomes\<close>

text \<open>
  An outcome is \<open>None\<close> when the iteration bound is used up, \<open>Some (Inl e)\<close> when the
  exception \<open>e\<close> is raised and \<open>Some (Inr x)\<close> when \<open>x\<close> is returned. \<open>and_then\<close> runs the
  rest of a case body after a call that returned, and passes on anything else, as an
  uncaught exception does (the interpreter has no \<^verbatim>\<open>try\<close>).
\<close>

type_synonym 'f result = "'f py_value \<times> Type \<times> 'f State"

type_synonym 'a outcome = "(error + 'a) option"

definition raise :: "error \<Rightarrow> 'a outcome" where
  "raise e = Some (Inl e)"

definition return :: "'a \<Rightarrow> 'a outcome" where
  "return x = Some (Inr x)"

fun and_then :: "'a outcome \<Rightarrow> ('a \<Rightarrow> 'b outcome) \<Rightarrow> 'b outcome" where
  "and_then None f = None"
| "and_then (Some (Inl e)) f = Some (Inl e)"
| "and_then (Some (Inr x)) f = f x"

text \<open>A host operator's result under a tag: \<open>None\<close> is the uncovered operand pair.\<close>

fun host :: "'a option \<Rightarrow> 'a outcome" where
  "host None = raise IllTagged"
| "host (Some x) = return x"

fun host_raising :: "(error + 'a) \<Rightarrow> 'a outcome" where
  "host_raising (Inl e) = raise e"
| "host_raising (Inr x) = return x"

subsection \<open>Main evaluation logic\<close>

text \<open>
  \<open>evaluate H k expression state\<close>: \<open>H\<close> is the host's floating point, \<open>k\<close> bounds the
  number of times a \<^verbatim>\<open>While\<close> body is entered along any path of nested loops (each entry
  of a body lowers the bound for the rest of that loop; the recursive calls on
  subexpressions keep the bound). \<open>eval_exprs\<close> is the \<^verbatim>\<open>for expr in exprs\<close> loop of the
  \<^verbatim>\<open>Sequence | Program\<close> case, started from \<^verbatim>\<open>(None, Unit(), state)\<close>.
  The text that \<^verbatim>\<open>Print\<close> writes to standard output is not part of the returned triple
  and is not modelled.
\<close>

fun evaluate :: "'f host_float \<Rightarrow> nat \<Rightarrow> 'f Expr \<Rightarrow> 'f State \<Rightarrow> 'f result outcome"
  and eval_exprs :: "'f host_float \<Rightarrow> nat \<Rightarrow> 'f Expr list \<Rightarrow> 'f result \<Rightarrow> 'f result outcome"
where
  "evaluate H k Ren state = return (VNone, Unit, state)"
| "evaluate H k (IntLiteral l) state = return (VInt l, Integer, state)"
| "evaluate H k (FloatingPointLiteral l) state = return (VFloat l, FloatingPoint, state)"
| "evaluate H k (StringLiteral l) state = return (VStr l, String, state)"
| "evaluate H k (BooleanLiteral l) state = return (VBool l, Boolean, state)"
| "evaluate H k (Print to_print) state =
     and_then (evaluate H k to_print state) (\<lambda>(printable_value, printable_type, new_state).
       return (printable_value, printable_type, new_state))"
| "evaluate H k (Sequence exprs) state = eval_exprs H k exprs (VNone, Unit, state)"
| "evaluate H k (Program exprs) state = eval_exprs H k exprs (VNone, Unit, state)"
| "evaluate H k (Variable name) state =
     (case get_value state name of
        None \<Rightarrow> raise InterpSyntaxError
      | Some (variable_value, variable_type) \<Rightarrow> return (variable_value, variable_type, state))"
| "evaluate H k (Assign name value) state =
     and_then (evaluate H k value state) (\<lambda>(value_result, value_type, new_state).
       let variable_type = (case get_value new_state name of
                              Some (_, t) \<Rightarrow> Some t
                            | None \<Rightarrow> None)
       in if Some value_type \<noteq> variable_type \<and> variable_type \<noteq> None
          then raise InterpTypeError
          else return (value_result, value_type,
                       set_value new_state name value_result value_type))"
| "evaluate H k (Add left right) state =
     and_then (evaluate H k left state) (\<lambda>(left_result, left_type, new_state).
     and_then (evaluate H k right new_state) (\<lambda>(right_result, right_type, new_state).
       if left_type \<noteq> right_type then raise InterpTypeError
       else (case left_type of
               Integer \<Rightarrow> and_then (host (py_add H left_result right_result))
                            (\<lambda>result. return (result, left_type, new_state))
             | String \<Rightarrow> and_then (host (py_add H left_result right_result))
                            (\<lambda>result. return (result, left_type, new_state))
             | FloatingPoint \<Rightarrow> and_then (host (py_add H left_result right_result))
                            (\<lambda>result. return (result, left_type, new_state))
             | _ \<Rightarrow> raise InterpTypeError)))"
| "evaluate H k (Subtract left right) state =
     and_then (evaluate H k left state) (\<lambda>(left_result, left_type, new_state).
     and_then (evaluate H k right new_state) (\<lambda>(right_result, right_type, new_state).
       if left_type \<noteq> right_type then raise InterpTypeError
       else (case left_type of
               Integer \<Rightarrow> and_then (host (py_sub H left_result right_result))
                            (\<lambda>result. return (result, left_type, new_state))
             | FloatingPoint \<Rightarrow> and_then (host (py_sub H left_result right_result))
                            (\<lambda>result. return (result, left_type, new_state))
             | _ \<Rightarrow> raise InterpTypeError)))"
| "evaluate H k (Multiply left right) state =
     and_then (evaluate H k left state) (\<lambda>(left_result, left_type, new_state).
     and_then (evaluate H k right new_state) (\<lambda>(right_result, right_type, new_state).
       if left_type \<noteq> right_type then raise InterpTypeError
       else (case left_type of
               Integer \<Rightarrow> and_then (host (py_mul H left_result right_result))
                            (\<lambda>result. return (result, left_type, new_state))
             | FloatingPoint \<Rightarrow> and_then (host (py_mul H left_result right_result))
                            (\<lambda>result. return (result, left_type, new_state))
             | _ \<Rightarrow> raise InterpTypeError)))"
| "evaluate H k (Divide left right) state =
     and_then (evaluate H k left state) (\<lambda>(left_result, left_type, new_state).
     and_then (evaluate H k right new_state) (\<lambda>(right_result, right_type, new_state).
       if left_type \<noteq> right_type then raise InterpTypeError
       else (case left_type of
               FloatingPoint \<Rightarrow> and_then (host_raising (py_truediv H left_result right_result))
                            (\<lambda>result. return (result, left_type, new_state))
             | Integer \<Rightarrow> and_then (host_raising (py_floordiv left_result right_result))
                            (\<lambda>result. return (result, left_type, new_state))
             | _ \<Rightarrow> raise InterpTypeError)))"
| "evaluate H k (And left right) state =
     and_then (evaluate H k left state) (\<lambda>(left_value, left_type, new_state).
     and_then (evaluate H k right new_state) (\<lambda>(right_value, right_type, new_state).
       if left_type \<noteq> right_type then raise InterpTypeError
       else (case left_type of
               Boolean \<Rightarrow> and_then (host (py_and left_value right_value))
                            (\<lambda>result. return (result, left_type, new_state))
             | _ \<Rightarrow> raise InterpTypeError)))"
| "evaluate H k (Or left right) state =
     and_then (evaluate H k left state) (\<lambda>(left_value, left_type, new_state).
     and_then (evaluate H k right new_state) (\<lambda>(right_value, right_type, new_state).
       if left_type \<noteq> right_type then raise InterpTypeError
       else (case left_type of
               Boolean \<Rightarrow> and_then (host (py_or left_value right_value))
                            (\<lambda>result. return (result, left_type, new_state))
             | _ \<Rightarrow> raise InterpTypeError)))"
| "evaluate H k (Not_expr expr) state =
     and_then (evaluate H k expr state) (\<lambda>(expr_value, expr_type, new_state).
       if expr_type \<noteq> Boolean then raise InterpTypeError
       else and_then (host (py_not expr_value))
              (\<lambda>result. return (result, Boolean, new_state)))"
| "evaluate H k (If_expr condition true false) state =
     and_then (evaluate H k condition state) (\<lambda>(condition_value, condition_type, new_state).
       if condition_type \<noteq> Boolean then raise InterpTypeError
       else and_then (host (py_is_True condition_value)) (\<lambda>is_true.
         if is_true
         then and_then (evaluate H k true new_state) (\<lambda>(true_value, true_type, new_state).
                return (true_value, true_type, new_state))
         else and_then (evaluate H k false new_state) (\<lambda>(false_value, false_type, new_state).
                return (false_value, false_type, new_state))))"
| "evaluate H k (Lt left right) state =
     and_then (evaluate H k left state) (\<lambda>(left_value, left_type, new_state).
     and_then (evaluate H k right new_state) (\<lambda>(right_value, right_type, new_state).
       if left_type \<noteq> right_type then raise InterpTypeError
       else (case left_type of
               Unit \<Rightarrow> return (VBool False, Boolean, new_state)
             | _ \<Rightarrow> and_then (host (py_lt H left_value right_value))
                      (\<lambda>result. return (VBool result, Boolean, new_state)))))"
| "evaluate H k (Lte left right) state =
     and_then (evaluate H k left state) (\<lambda>(left_value, left_type, new_state).
     and_then (evaluate H k right new_state) (\<lambda>(right_value, right_type, new_state).
       if left_type \<noteq> right_type then raise InterpTypeError
       else if left_value = VNone \<and> right_value = VNone
       then return (VBool True, Boolean, new_state)
       else (case left_type of
               Boolean \<Rightarrow> and_then (host (py_eq H left_value right_value))
                      (\<lambda>result. return (VBool result, Boolean, new_state))
             | Unit \<Rightarrow> return (VBool False, Boolean, new_state)
             | _ \<Rightarrow> and_then (host (py_le H left_value right_value))
                      (\<lambda>result. return (VBool result, Boolean, new_state)))))"
| "evaluate H k (Gt left right) state =
     and_then (evaluate H k left state) (\<lambda>(left_value, left_type, new_state).
     and_then (evaluate H k right new_state) (\<lambda>(right_value, right_type, new_state).
       if left_type \<noteq> right_type then raise InterpTypeError
       else (case left_type of
               Unit \<Rightarrow> return (VBool False, Boolean, new_state)
             | _ \<Rightarrow> and_then (host (py_gt H left_value right_value))
                      (\<lambda>result. return (VBool result, Boolean, new_state)))))"
| "evaluate H k (Gte left right) state =
     and_then (evaluate H k left state) (\<lambda>(left_value, left_type, new_state).
     and_then (evaluate H k right new_state) (\<lambda>(right_value, right_type, new_state).
       if left_type \<noteq> right_type then raise InterpTypeError
       else if left_value = VNone \<and> right_value = VNone
       then return (VBool True, Boolean, new_state)
       else (case left_type of
               Unit \<Rightarrow> return (VBool False, Boolean, new_state)
             | _ \<Rightarrow> and_then (host (py_ge H left_value right_value))
                      (\<lambda>result. return (VBool result, Boolean, new_state)))))"
| "evaluate H k (Eq left right) state =
     and_then (evaluate H k left state) (\<lambda>(left_value, left_type, new_state).
     and_then (evaluate H k right new_state) (\<lambda>(right_value, right_type, new_state).
       if left_type \<noteq> right_type then raise InterpTypeError
       else if left_value = VNone \<and> right_value = VNone
       then return (VBool True, Boolean, new_state)
       else (case left_type of
               Unit \<Rightarrow> return (VBool False, Boolean, new_state)
             | _ \<Rightarrow> and_then (host (py_eq H left_value right_value))
                      (\<lambda>result. return (VBool result, Boolean, new_state)))))"
| "evaluate H k (Ne left right) state =
     and_then (evaluate H k left state) (\<lambda>(left_value, left_type, new_state).
     and_then (evaluate H k right new_state) (\<lambda>(right_value, right_type, new_state).
       if left_type \<noteq> right_type then raise InterpTypeError
       else (case left_type of
               Unit \<Rightarrow> return (VBool False, Boolean, new_state)
             | _ \<Rightarrow> and_then (host (py_ne H left_value right_value))
                      (\<lambda>result. return (VBool result, Boolean, new_state)))))"
| "evaluate H k (While condition body) state =
     and_then (evaluate H k condition state) (\<lambda>(condition_value, condition_type, new_state).
       if condition_type \<noteq> Boolean then raise InterpTypeError
       else and_then (host (py_is_True condition_value)) (\<lambda>is_true.
         if \<not> is_true then return (condition_value, condition_type, new_state)
         else (case k of
                 0 \<Rightarrow> None
               | Suc k' \<Rightarrow>
                   and_then (evaluate H k body new_state) (\<lambda>(body_value, body_type, new_state).
                     evaluate H k' (While condition body) new_state))))"
| "evaluate H k Unhandled state = raise InterpSyntaxError"
| "eval_exprs H k [] last_result = return last_result"
| "eval_exprs H k (expr # exprs) (last_value, last_type, last_state) =
     and_then (evaluate H k expr last_state) (\<lambda>last_result. eval_exprs H k exprs last_result)"

text \<open>\<^verbatim>\<open>run_stimpl(program)\<close> (its \<^verbatim>\<open>debug\<close> printing left out) starts from \<^verbatim>\<open>EmptyState()\<close>.\<close>

definition run_stimpl :: "'f host_float \<Rightarrow> nat \<Rightarrow> 'f Expr \<Rightarrow> 'f result outcome" where
  "run_stimpl H k program = evaluate H k program EmptyState"

subsection \<open>The state as objects in a store\<close>

text \<open>
  The datatype \<open>State\<close> reads a chain of \<^verbatim>\<open>State\<close> objects as a value. To say that
  \<^verbatim>\<open>set_value\<close> leaves the objects that exist alone, the same two methods are also
  modelled on an object store: an object is named by its address (its position in the
  store), \<^verbatim>\<open>State(...)\<close> allocates at the end of the store, and \<^verbatim>\<open>next_state\<close> holds an
  address. The loop of \<^verbatim>\<open>get_value\<close> is bounded by \<open>fuel\<close>; \<open>None\<close> is a loop that has
  not finished (or a reference to no object, which Python does not have).
\<close>

datatype 'f state_object =
    EmptyState_object
  | State_object string "'f py_value \<times> Type" nat

type_synonym 'f object_store = "'f state_object list"

definition store_set_value ::
  "'f object_store \<Rightarrow> nat \<Rightarrow> string \<Rightarrow> 'f py_value \<Rightarrow> Type \<Rightarrow> 'f object_store \<times> nat" where
  "store_set_value store self name variable_value variable_type =
     (store @ [State_object name (variable_value, variable_type) self], length store)"

fun store_get_value ::
  "nat \<Rightarrow> 'f object_store \<Rightarrow> nat \<Rightarrow> string \<Rightarrow> ('f py_value \<times> Type) option option" where
  "store_get_value 0 store current_state name = None"
| "store_get_value (Suc fuel) store current_state name =
     (if current_state < length store then
        (case store ! current_state of
           EmptyState_object \<Rightarrow> Some None
         | State_object n v nxt \<Rightarrow>
             if n = name then Some (Some v) else store_get_value fuel store nxt name)
      else None)"

text \<open>\<open>represents store a s\<close>: the chain of objects that starts at address \<open>a\<close> is the
  state \<open>s\<close>.\<close>

inductive represents :: "'f object_store \<Rightarrow> nat \<Rightarrow> 'f State \<Rightarrow> bool" where
  represents_empty:
    "a < length store \<Longrightarrow> store ! a = EmptyState_object \<Longrightarrow> represents store a EmptyState"
| represents_state:
    "a < length store \<Longrightarrow> store ! a = State_object n v nxt \<Longrightarrow> represents store nxt s \<Longrightarrow>
       represents store a (State n v s)"

text \<open>The bindings of a state, newest first.\<close>

fun bindings :: "'f State \<Rightarrow> (string \<times> 'f py_value \<times> Type) list" where
  "bindings EmptyState = []"
| "bindings (State n v nxt) = (n, v) # bindings nxt"

subsection \<open>Auxiliary notions for the properties\<close>

text \<open>The constructs with a left and a right operand.\<close>

definition binary_constructs :: "('f Expr \<Rightarrow> 'f Expr \<Rightarrow> 'f Expr) list" where
  "binary_constructs = [Add, Subtract, Multiply, Divide, And, Or, Lt, Lte, Gt, Gte, Eq, Ne]"

text \<open>
  An instance of the host parameter for evaluating concrete programs: floats are the
  rationals, with exact arithmetic. It is not Python's binary64 (no rounding, no
  infinities); the general theorems hold for every host.
\<close>

definition rational_host :: "rat host_float" where
  "rational_host =
     \<lparr>f_add = (+), f_sub = (-), f_mul = (*),
      f_truediv = (\<lambda>a b. if b = 0 then None else Some (a / b)),
      f_lt = (<), f_le = (\<le>), f_eq = (=)\<rparr>"

text \<open>A value agrees with its tag when its Python class is the class of the tag.\<close>

fun has_tag :: "'f py_value \<Rightarrow> Type \<Rightarrow> bool" where
  "has_tag VNone Unit = True"
| "has_tag (VInt i) Integer = True"
| "has_tag (VFloat x) FloatingPoint = True"
| "has_tag (VStr s) String = True"
| "has_tag (VBool b) Boolean = True"
| "has_tag _ _ = False"

fun well_tagged :: "'f State \<Rightarrow> bool" where
  "well_tagged EmptyState = True"
| "well_tagged (State n (v, t) nxt) = (has_tag v t \<and> well_tagged nxt)"

text \<open>An outcome is well tagged when it is not \<open>IllTagged\<close> and a returned value agrees
  with its type, in a state whose bindings all do.\<close>

definition tagged_result :: "'f result outcome \<Rightarrow> bool" where
  "tagged_result m \<longleftrightarrow>
     m \<noteq> raise IllTagged \<and> (\<forall>v t s. m = return (v, t, s) \<longrightarrow> has_tag v t \<and> well_tagged s)"

text \<open>The order of outcomes by the iteration bound: an unfinished evaluation may become any
  outcome under a larger bound, a finished one stays what it is.\<close>

definition outcome_le :: "'a outcome \<Rightarrow> 'a outcome \<Rightarrow> bool" where
  "outcome_le m m' \<longleftrightarrow> m = None \<or> m = m'"

text \<open>The programs of the spec's examples.\<close>

definition assignment_visibility_program :: "'f Expr" where
  "assignment_visibility_program =
     Sequence [Assign ''x'' (IntLiteral 1), Add (Variable ''x'') (IntLiteral 1)]"

definition type_lock_program :: "'f Expr" where
  "type_lock_program =
     Sequence [Assign ''x'' (IntLiteral 1), Assign ''x'' (StringLiteral ''a'')]"

definition count_to_five_program :: "'f Expr" where
  "count_to_five_program =
     Sequence [Assign ''i'' (IntLiteral 0),
               While (Lt (Variable ''i'') (IntLiteral 5))
                     (Assign ''i'' (Add (Variable ''i'') (IntLiteral 1)))]"

section \<open>Basic facts\<close>

lemma and_then_return [simp]: "and_then (return x) f = f x"
  by (simp add: return_def)

lemma and_then_raise [simp]: "and_then (raise e) f = raise e"
  by (simp add: raise_def)

lemma outcome_distinct [simp]:
  "return x \<noteq> raise e" "raise e \<noteq> return x" "return x \<noteq> None" "raise e \<noteq> None"
  "None \<noteq> return x" "None \<noteq> raise e"
  by (simp_all add: return_def raise_def)

lemma return_inject [simp]: "return x = return y \<longleftrightarrow> x = y"
  by (simp add: return_def)

lemma raise_inject [simp]: "raise e = raise e' \<longleftrightarrow> e = e'"
  by (simp add: raise_def)

lemma outcome_cases:
  obtains (Timeout) "m = None" | (Raises) e where "m = raise e" | (Returns) x where "m = return x"
  by (cases m) (auto simp: return_def raise_def elim: sum.exhaust)

lemma and_then_return_right [simp]: "and_then m return = m"
  by (cases m rule: outcome_cases) simp_all

lemma host_then_state:
  "(\<exists>e. and_then (host m) (\<lambda>x. return (g x, t, s)) = raise e) \<or>
   (\<exists>v t'. and_then (host m) (\<lambda>x. return (g x, t, s)) = return (v, t', s))"
  by (cases m) simp_all

lemma host_raising_then_state:
  "(\<exists>e. and_then (host_raising m) (\<lambda>x. return (g x, t, s)) = raise e) \<or>
   (\<exists>v t'. and_then (host_raising m) (\<lambda>x. return (g x, t, s)) = return (v, t', s))"
  by (cases m) simp_all

subsection \<open>The loop over the elements of a sequence\<close>

lemma eval_exprs_append:
  "eval_exprs H k (es @ es') acc = and_then (eval_exprs H k es acc) (eval_exprs H k es')"
proof (induction es arbitrary: acc)
  case Nil
  show ?case by simp
next
  case (Cons e es)
  obtain v t s where acc: "acc = (v, t, s)" by (cases acc)
  show ?case
    by (cases "evaluate H k e s" rule: outcome_cases) (simp_all add: acc Cons.IH)
qed

lemma eval_exprs_nonempty_acc:
  "exprs \<noteq> [] \<Longrightarrow> eval_exprs H k exprs (v, t, s) = eval_exprs H k exprs (v', t', s)"
  by (cases exprs) simp_all

lemma eval_exprs_snoc:
  "eval_exprs H k (exprs @ [expr]) acc =
     and_then (eval_exprs H k exprs acc) (\<lambda>(v, t, s1). evaluate H k expr s1)"
proof -
  have "eval_exprs H k [] = return"
    by (rule ext) simp
  then have "eval_exprs H k [expr] = (\<lambda>(v, t, s1). evaluate H k expr s1)"
    by (intro ext) (simp split: prod.splits)
  then show ?thesis by (simp add: eval_exprs_append)
qed

subsection \<open>Operands of the binary constructs\<close>

lemma binary_left_timeout:
  "C \<in> set binary_constructs \<Longrightarrow> evaluate H k left state = None \<Longrightarrow>
     evaluate H k (C left right) state = None"
  by (auto simp: binary_constructs_def)

lemma binary_left_raises:
  "C \<in> set binary_constructs \<Longrightarrow> evaluate H k left state = raise e \<Longrightarrow>
     evaluate H k (C left right) state = raise e"
  by (auto simp: binary_constructs_def)

lemma binary_right_timeout:
  "C \<in> set binary_constructs \<Longrightarrow> evaluate H k left state = return (lv, lt, s1) \<Longrightarrow>
     evaluate H k right s1 = None \<Longrightarrow> evaluate H k (C left right) state = None"
  by (auto simp: binary_constructs_def)

lemma binary_right_raises:
  "C \<in> set binary_constructs \<Longrightarrow> evaluate H k left state = return (lv, lt, s1) \<Longrightarrow>
     evaluate H k right s1 = raise e \<Longrightarrow> evaluate H k (C left right) state = raise e"
  by (auto simp: binary_constructs_def)

lemma binary_both_return:
  assumes C: "C \<in> set binary_constructs"
    and l: "evaluate H k left state = return (lv, lt, s1)"
    and r: "evaluate H k right s1 = return (rv, rt, s2)"
  shows "(\<exists>e. evaluate H k (C left right) state = raise e) \<or>
         (\<exists>v t. evaluate H k (C left right) state = return (v, t, s2))"
proof -
  note hs = host_then_state [where g = "\<lambda>x. x" and s = s2, simplified]
    host_then_state [where g = VBool and s = s2]
    host_raising_then_state [where g = "\<lambda>x. x" and s = s2, simplified]
  from C consider "C = Add" | "C = Subtract" | "C = Multiply" | "C = Divide" | "C = And"
    | "C = Or" | "C = Lt" | "C = Lte" | "C = Gt" | "C = Gte" | "C = Eq" | "C = Ne"
    by (auto simp: binary_constructs_def)
  then show ?thesis
  proof cases
    case 1 then show ?thesis by (cases lt) (simp_all add: l r hs)
  next
    case 2 then show ?thesis by (cases lt) (simp_all add: l r hs)
  next
    case 3 then show ?thesis by (cases lt) (simp_all add: l r hs)
  next
    case 4 then show ?thesis by (cases lt) (simp_all add: l r hs)
  next
    case 5 then show ?thesis by (cases lt) (simp_all add: l r hs)
  next
    case 6 then show ?thesis by (cases lt) (simp_all add: l r hs)
  next
    case 7 then show ?thesis by (cases lt) (simp_all add: l r hs)
  next
    case 8 then show ?thesis by (cases lt) (simp_all add: l r hs)
  next
    case 9 then show ?thesis by (cases lt) (simp_all add: l r hs)
  next
    case 10 then show ?thesis by (cases lt) (simp_all add: l r hs)
  next
    case 11 then show ?thesis by (cases lt) (simp_all add: l r hs)
  next
    case 12 then show ?thesis by (cases lt) (simp_all add: l r hs)
  qed
qed

subsection \<open>The object store\<close>

lemma represents_append:
  "represents store a s \<Longrightarrow> represents (store @ added) a s"
proof (induction rule: represents.induct)
  case (represents_empty a store)
  then show ?case by (simp add: represents.represents_empty nth_append)
next
  case (represents_state a store n v nxt s)
  then have "a < length (store @ added)" "(store @ added) ! a = State_object n v nxt"
    by (simp_all add: nth_append)
  with represents_state.IH show ?case by (blast intro: represents.represents_state)
qed

lemma store_get_value_append:
  "represents store a s \<Longrightarrow>
     store_get_value fuel (store @ added) a name = store_get_value fuel store a name"
proof (induction arbitrary: fuel rule: represents.induct)
  case (represents_empty a store)
  then show ?case by (cases fuel) (simp_all add: nth_append)
next
  case (represents_state a store n v nxt s)
  then show ?case by (cases fuel) (simp_all add: nth_append)
qed

lemma store_get_value_represents:
  "represents store a s \<Longrightarrow> length (bindings s) < fuel \<Longrightarrow>
     store_get_value fuel store a name = Some (get_value s name)"
proof (induction arbitrary: fuel rule: represents.induct)
  case (represents_empty a store)
  then show ?case by (cases fuel) simp_all
next
  case (represents_state a store n v nxt s)
  then show ?case by (cases fuel) simp_all
qed

lemma get_value_first_binding:
  "get_value s name = map_option snd (find (\<lambda>(n, b). n = name) (bindings s))"
  by (induction s) simp_all

subsection \<open>Values agree with their tags\<close>

lemma and_then_returns:
  "and_then m f = return y \<longleftrightarrow> (\<exists>x. m = return x \<and> f x = return y)"
  by (cases m rule: outcome_cases) simp_all

lemma and_then_raises:
  "and_then m f = raise e \<longleftrightarrow> m = raise e \<or> (\<exists>x. m = return x \<and> f x = raise e)"
  by (cases m rule: outcome_cases) simp_all

lemma host_returns [simp]: "host m = return x \<longleftrightarrow> m = Some x"
  by (cases m) simp_all

lemma host_raises [simp]: "host m = raise e \<longleftrightarrow> m = None \<and> e = IllTagged"
  by (cases m) auto

lemma host_raising_returns [simp]: "host_raising m = return x \<longleftrightarrow> m = Inr x"
  by (cases m) simp_all

lemma host_raising_raises [simp]: "host_raising m = raise e \<longleftrightarrow> m = Inl e"
  by (cases m) simp_all

lemma get_value_well_tagged:
  "well_tagged s \<Longrightarrow> get_value s name = Some (v, t) \<Longrightarrow> has_tag v t"
  by (induction s) (auto split: if_splits)

lemma has_tag_cases:
  "has_tag v Unit \<longleftrightarrow> v = VNone"
  "has_tag v Integer \<longleftrightarrow> (\<exists>i. v = VInt i)"
  "has_tag v FloatingPoint \<longleftrightarrow> (\<exists>x. v = VFloat x)"
  "has_tag v String \<longleftrightarrow> (\<exists>s. v = VStr s)"
  "has_tag v Boolean \<longleftrightarrow> (\<exists>b. v = VBool b)"
  by (cases v; simp)+

lemma tagged_resultI:
  "m \<noteq> raise IllTagged \<Longrightarrow> (\<And>v t s. m = return (v, t, s) \<Longrightarrow> has_tag v t \<and> well_tagged s) \<Longrightarrow>
     tagged_result m"
  by (simp add: tagged_result_def)

lemma tagged_result_simps [simp]:
  "tagged_result None"
  "tagged_result (raise e) \<longleftrightarrow> e \<noteq> IllTagged"
  "tagged_result (return (v, t, s)) \<longleftrightarrow> has_tag v t \<and> well_tagged s"
  by (auto simp: tagged_result_def)

lemma tagged_and_then:
  assumes "tagged_result m"
    and "\<And>v t s. m = return (v, t, s) \<Longrightarrow> has_tag v t \<Longrightarrow> well_tagged s \<Longrightarrow> tagged_result (f (v, t, s))"
  shows "tagged_result (and_then m f)"
proof (cases m rule: outcome_cases)
  case (Returns x)
  obtain v t s where "x = (v, t, s)" by (cases x)
  with Returns assms show ?thesis by simp
qed (use assms in simp_all)

lemma has_tagE:
  assumes "has_tag v t"
  obtains "t = Unit" "v = VNone"
    | i where "t = Integer" "v = VInt i"
    | x where "t = FloatingPoint" "v = VFloat x"
    | str where "t = String" "v = VStr str"
    | b where "t = Boolean" "v = VBool b"
  using assms by (cases v; cases t; simp)

lemma evaluate_tagged:
  "well_tagged state \<Longrightarrow> tagged_result (evaluate H k e state)"
  and eval_exprs_tagged:
  "(case acc of (v, t, s) \<Rightarrow> has_tag v t \<and> well_tagged s) \<Longrightarrow>
     tagged_result (eval_exprs H k es acc)"
proof (induction H k e state and H k es acc rule: evaluate_eval_exprs.induct)
  case (9 H k name state)
  then show ?case
    by (auto split: option.splits dest: get_value_well_tagged)
next
  case (10 H k name "value" state)
  then show ?case
    by (auto intro!: tagged_and_then simp: set_value_def Let_def)
next
  case (11 H k left right state)
  then show ?case
    by (auto intro!: tagged_and_then elim!: has_tagE)
next
  case (12 H k left right state)
  then show ?case
    by (auto intro!: tagged_and_then elim!: has_tagE)
next
  case (13 H k left right state)
  then show ?case
    by (auto intro!: tagged_and_then elim!: has_tagE)
next
  case (14 H k left right state)
  then show ?case
    by (auto intro!: tagged_and_then elim!: has_tagE split: option.splits)
next
  case (15 H k left right state)
  then show ?case
    by (auto intro!: tagged_and_then elim!: has_tagE)
next
  case (16 H k left right state)
  then show ?case
    by (auto intro!: tagged_and_then elim!: has_tagE)
next
  case (17 H k expr state)
  then show ?case
    by (auto intro!: tagged_and_then elim!: has_tagE)
next
  case (18 H k condition true false state)
  then show ?case
    by (auto intro!: tagged_and_then elim!: has_tagE)
next
  case (19 H k left right state)
  then show ?case
    by (auto intro!: tagged_and_then elim!: has_tagE)
next
  case (20 H k left right state)
  then show ?case
    by (auto intro!: tagged_and_then elim!: has_tagE)
next
  case (21 H k left right state)
  then show ?case
    by (auto intro!: tagged_and_then elim!: has_tagE simp: py_gt_def)
next
  case (22 H k left right state)
  then show ?case
    by (auto intro!: tagged_and_then elim!: has_tagE simp: py_ge_def)
next
  case (23 H k left right state)
  then show ?case
    by (auto intro!: tagged_and_then elim!: has_tagE)
next
  case (24 H k left right state)
  then show ?case
    by (auto intro!: tagged_and_then elim!: has_tagE simp: py_ne_def)
next
  case (25 H k condition body state)
  then show ?case
    by (auto intro!: tagged_and_then elim!: has_tagE split: nat.splits)
qed (auto intro!: tagged_and_then)

lemma evaluate_well_tagged:
  assumes "well_tagged state"
  shows "evaluate H k e state \<noteq> raise IllTagged"
    and "evaluate H k e state = return (v, t, s) \<Longrightarrow> has_tag v t \<and> well_tagged s"
  using evaluate_tagged [OF assms, of H k e] by (simp_all add: tagged_result_def)

lemma run_stimpl_well_tagged:
  "run_stimpl H k program \<noteq> raise IllTagged"
  "run_stimpl H k program = return (v, t, s) \<Longrightarrow> has_tag v t \<and> well_tagged s"
  using evaluate_well_tagged [of EmptyState H k program] by (simp_all add: run_stimpl_def)

subsection \<open>A larger bound changes no result\<close>

lemma outcome_le_simps [simp]: "outcome_le None m" "outcome_le m m"
  by (simp_all add: outcome_le_def)

lemma outcome_le_and_then:
  assumes "outcome_le m m'"
    and "\<And>x. m = return x \<Longrightarrow> outcome_le (f x) (f' x)"
  shows "outcome_le (and_then m f) (and_then m' f')"
proof (cases m rule: outcome_cases)
  case Timeout
  then show ?thesis by simp
next
  case (Raises e)
  with assms(1) have "m' = raise e" by (simp add: outcome_le_def)
  with Raises show ?thesis by simp
next
  case (Returns x)
  with assms(1) have "m' = return x" by (simp add: outcome_le_def)
  with Returns assms(2) show ?thesis by simp
qed

lemma evaluate_bound_mono:
  "k \<le> k' \<Longrightarrow> outcome_le (evaluate H k e state) (evaluate H k' e state)"
  and eval_exprs_bound_mono:
  "k \<le> k' \<Longrightarrow> outcome_le (eval_exprs H k es acc) (eval_exprs H k' es acc)"
proof (induction H k e state and H k es acc arbitrary: k' and k'
    rule: evaluate_eval_exprs.induct)
  case (25 H k condition body state)
  show ?case
  proof (cases k)
    case 0
    then show ?thesis
      using 25(1) [OF \<open>k \<le> k'\<close>]
      by (auto intro!: outcome_le_and_then split: nat.splits)
  next
    case (Suc j)
    with \<open>k \<le> k'\<close> obtain j' where k': "k' = Suc j'" and j: "j \<le> j'"
      by (cases k') simp_all
    show ?thesis
      using 25(1) [OF \<open>k \<le> k'\<close>] 25(2) [OF _ _ Suc \<open>k \<le> k'\<close>] 25(3) [OF _ _ Suc j]
      unfolding Suc k'
      by (auto intro!: outcome_le_and_then simp del: evaluate.simps(25) simp: evaluate.simps(25) [of H "Suc j"] evaluate.simps(25) [of H "Suc j'"])
  qed
qed (auto intro!: outcome_le_and_then)

lemma evaluate_bound_enough:
  "evaluate H k e state = Some r \<Longrightarrow> k \<le> k' \<Longrightarrow> evaluate H k' e state = Some r"
  using evaluate_bound_mono [of k k' H e state] by (simp add: outcome_le_def)

section \<open>The claims\<close>

text \<open>
  C1. The claim: every binary construct and every sequence evaluates its left operand
  (earlier element) against the incoming state and its right operand (later element)
  against the state returned by the left, and in particular
  \<open>sequence[assign(x, 1), add(variable(x), 1)]\<close> yields 2 with type Integer from any
  state. The example fails from a state that binds \<open>x\<close> with another type: the assignment
  raises InterpTypeError there.
\<close>

theorem assignment_visibility_counterexample:
  "evaluate rational_host 0 assignment_visibility_program
     (State ''x'' (VStr ''a'', String) EmptyState) = raise InterpTypeError"
  by (simp add: assignment_visibility_program_def)

text \<open>
  C1, amended. For each binary construct \<open>C\<close>: what the left operand does against the
  incoming state when it does not return (raises, or the bound runs out) is what
  \<open>C left right\<close> does; when the left operand returns the state \<open>s1\<close>, what the right
  operand does against \<open>s1\<close> when it does not return is what \<open>C left right\<close> does; and
  when the right operand returns the state \<open>s2\<close>, \<open>C left right\<close> raises or returns with
  the state \<open>s2\<close>. A sequence \<open>exprs @ [expr]\<close> evaluates \<open>expr\<close> against the state that
  \<open>exprs\<close> returns. The example yields 2 with type Integer, and the state extended by
  the binding of \<open>x\<close> to 1, from every state in which \<open>x\<close> is unbound or bound with type
  Integer; from every state that binds \<open>x\<close> with another type it raises InterpTypeError.
\<close>

theorem environment_threading:
  assumes "C \<in> set binary_constructs"
  shows "(evaluate H k left state = None \<longrightarrow> evaluate H k (C left right) state = None)
   \<and> (evaluate H k left state = raise e \<longrightarrow> evaluate H k (C left right) state = raise e)
   \<and> (evaluate H k left state = return (lv, lt, s1) \<longrightarrow>
        (evaluate H k right s1 = None \<longrightarrow> evaluate H k (C left right) state = None)
      \<and> (evaluate H k right s1 = raise e \<longrightarrow> evaluate H k (C left right) state = raise e)
      \<and> (evaluate H k right s1 = return (rv, rt, s2) \<longrightarrow>
           (\<exists>e'. evaluate H k (C left right) state = raise e') \<or>
           (\<exists>v t. evaluate H k (C left right) state = return (v, t, s2))))
   \<and> evaluate H k (Sequence (exprs @ [expr])) state =
       and_then (evaluate H k (Sequence exprs) state) (\<lambda>(v, t, s1). evaluate H k expr s1)
   \<and> (get_value state ''x'' = None \<or> (\<exists>v. get_value state ''x'' = Some (v, Integer)) \<longrightarrow>
        evaluate H k assignment_visibility_program state =
          return (VInt 2, Integer, State ''x'' (VInt 1, Integer) state))
   \<and> (get_value state ''x'' = Some (xv, xt) \<and> xt \<noteq> Integer \<longrightarrow>
        evaluate H k assignment_visibility_program state = raise InterpTypeError)"
proof -
  have other_type: "evaluate H k assignment_visibility_program state = raise InterpTypeError"
    if "get_value state ''x'' = Some (xv, xt) \<and> xt \<noteq> Integer"
    using that by (auto simp: assignment_visibility_program_def)
  have example: "evaluate H k assignment_visibility_program state =
      return (VInt 2, Integer, State ''x'' (VInt 1, Integer) state)"
    if "get_value state ''x'' = None \<or> (\<exists>v. get_value state ''x'' = Some (v, Integer))"
    using that by (auto simp: assignment_visibility_program_def set_value_def)
  have seq: "evaluate H k (Sequence (exprs @ [expr])) state =
       and_then (evaluate H k (Sequence exprs) state) (\<lambda>(v, t, s1). evaluate H k expr s1)"
    by (simp add: eval_exprs_snoc)
  show ?thesis
    using binary_left_timeout [OF assms, of H k left state right]
      binary_left_raises [OF assms, of H k left state e right]
      binary_right_timeout [OF assms, of H k left state lv lt s1 right]
      binary_right_raises [OF assms, of H k left state lv lt s1 right e]
      binary_both_return [OF assms, of H k left state lv lt s1 right rv rt s2]
      example seq other_type
    by blast
qed

theorem environment_threading_witness:
  "Add \<in> set binary_constructs
   \<and> evaluate rational_host 0 (Assign ''x'' (IntLiteral 1)) EmptyState
       = return (VInt 1, Integer, State ''x'' (VInt 1, Integer) EmptyState)
   \<and> evaluate rational_host 0 (Variable ''x'') EmptyState = raise InterpSyntaxError
   \<and> evaluate rational_host 0 (Variable ''x'') (State ''x'' (VInt 1, Integer) EmptyState)
       = return (VInt 1, Integer, State ''x'' (VInt 1, Integer) EmptyState)
   \<and> evaluate rational_host 0 (Add (Assign ''x'' (IntLiteral 1)) (Variable ''x'')) EmptyState
       = return (VInt 2, Integer, State ''x'' (VInt 1, Integer) EmptyState)
   \<and> get_value (State ''x'' (VInt 7, Integer) EmptyState) ''x'' = Some (VInt 7, Integer)
   \<and> evaluate rational_host 0 assignment_visibility_program (State ''x'' (VInt 7, Integer) EmptyState)
       = return (VInt 2, Integer, State ''x'' (VInt 1, Integer) (State ''x'' (VInt 7, Integer) EmptyState))
   \<and> get_value (State ''y'' (VInt 0, Integer) (State ''x'' (VBool True, Boolean) EmptyState)) ''x''
       = Some (VBool True, Boolean)
   \<and> Boolean \<noteq> Integer
   \<and> evaluate rational_host 0 assignment_visibility_program
        (State ''y'' (VInt 0, Integer) (State ''x'' (VBool True, Boolean) EmptyState))
       = raise InterpTypeError"
  using environment_threading [where C = Add and H = rational_host and k = 0
      and state = "State ''y'' (VInt 0, Integer) (State ''x'' (VBool True, Boolean) EmptyState)"
      and xv = "VBool True" and xt = Boolean]
    environment_threading [where C = Add and H = rational_host and k = 0
      and left = "Assign ''x'' (IntLiteral 1)" and right = "Variable ''x''"
      and state = "State ''x'' (VInt 7, Integer) EmptyState"]
  by (simp add: binary_constructs_def set_value_def assignment_visibility_program_def)

text \<open>
  C2. The claim: on two operands that evaluate to Boolean values, \<open>Lte\<close> returns the
  natural-order comparison \<open>l \<le> r\<close>, so \<open>Lte (BooleanLiteral False) (BooleanLiteral True)\<close>
  yields true. The \<^verbatim>\<open>Lte\<close> case has a branch of its own for \<^verbatim>\<open>Boolean()\<close> that compares
  with \<^verbatim>\<open>==\<close>: on this input \<open>evaluate\<close> returns false, with type Boolean and the state
  unchanged, from every state and for every host and bound.
\<close>

theorem lte_false_true_is_false:
  "evaluate H k (Lte (BooleanLiteral False) (BooleanLiteral True)) state
     = return (VBool False, Boolean, state)"
  by simp

text \<open>The other half of the claim holds: \<open>Gte\<close> on Booleans is the natural order, and \<open>Lte\<close>
  is equality of the two Booleans.\<close>

lemma gte_boolean_natural_order:
  "evaluate H k left state = return (VBool a, Boolean, s1) \<Longrightarrow>
   evaluate H k right s1 = return (VBool b, Boolean, s2) \<Longrightarrow>
   evaluate H k (Gte left right) state = return (VBool (b \<le> a), Boolean, s2)"
  by (simp add: py_ge_def)

lemma lte_boolean_is_equality:
  "evaluate H k left state = return (VBool a, Boolean, s1) \<Longrightarrow>
   evaluate H k right s1 = return (VBool b, Boolean, s2) \<Longrightarrow>
   evaluate H k (Lte left right) state = return (VBool (a = b), Boolean, s2)"
  by simp

text \<open>
  C3. \<open>Assign name valueExpr\<close> first evaluates \<open>valueExpr\<close> against \<open>env\<close>; a failure of
  that evaluation is the failure of the assignment. When it returns \<open>(v, vt, env1)\<close>:
  if \<open>name\<close> is bound in \<open>env1\<close> with a type other than \<open>vt\<close>, InterpTypeError is raised
  (nothing is returned, so no binding is added); otherwise \<open>(v, vt, env1')\<close> is returned,
  where \<open>env1'\<close> is \<open>env1\<close> with the binding \<open>(name, v, vt)\<close> put at its head. From every
  state, \<open>sequence[assign(x, 1), assign(x, "a")]\<close> raises InterpTypeError.
\<close>

theorem assign_type_lock:
  "(evaluate H k valueExpr env = raise e \<longrightarrow>
      evaluate H k (Assign name valueExpr) env = raise e)
   \<and> (evaluate H k valueExpr env = return (v, vt, env1) \<longrightarrow>
      evaluate H k (Assign name valueExpr) env =
        (case get_value env1 name of
           None \<Rightarrow> return (v, vt, State name (v, vt) env1)
         | Some (ev, et) \<Rightarrow>
             if et \<noteq> vt then raise InterpTypeError
             else return (v, vt, State name (v, vt) env1)))
   \<and> evaluate H k type_lock_program env = raise InterpTypeError"
  by (auto simp: set_value_def type_lock_program_def split: option.splits)

theorem assign_type_lock_witness:
  "evaluate rational_host 0 (IntLiteral 1) (State ''x'' (VStr ''a'', String) EmptyState)
     = return (VInt 1, Integer, State ''x'' (VStr ''a'', String) EmptyState)
   \<and> evaluate rational_host 0 (Assign ''x'' (IntLiteral 1))
        (State ''x'' (VStr ''a'', String) EmptyState) = raise InterpTypeError
   \<and> evaluate rational_host 0 (Assign ''y'' (IntLiteral 1))
        (State ''x'' (VStr ''a'', String) EmptyState)
       = return (VInt 1, Integer,
                 State ''y'' (VInt 1, Integer) (State ''x'' (VStr ''a'', String) EmptyState))"
  using assign_type_lock [of rational_host 0 "IntLiteral 1"
      "State ''x'' (VStr ''a'', String) EmptyState" _ "''x''" "VInt 1" Integer
      "State ''x'' (VStr ''a'', String) EmptyState"]
    assign_type_lock [of rational_host 0 "IntLiteral 1"
      "State ''x'' (VStr ''a'', String) EmptyState" _ "''y''" "VInt 1" Integer
      "State ''x'' (VStr ''a'', String) EmptyState"]
  by simp

text \<open>
  C4. When both operands evaluate to the Unit value (\<^verbatim>\<open>None\<close> with type Unit), \<open>Eq\<close>,
  \<open>Lte\<close> and \<open>Gte\<close> return true and \<open>Ne\<close>, \<open>Lt\<close> and \<open>Gt\<close> return false, all with type
  Boolean and with the state returned by the right operand; no error is raised.
\<close>

theorem unit_comparisons:
  "evaluate H k left state = return (VNone, Unit, s1) \<and>
   evaluate H k right s1 = return (VNone, Unit, s2) \<longrightarrow>
     evaluate H k (Eq left right) state = return (VBool True, Boolean, s2) \<and>
     evaluate H k (Lte left right) state = return (VBool True, Boolean, s2) \<and>
     evaluate H k (Gte left right) state = return (VBool True, Boolean, s2) \<and>
     evaluate H k (Ne left right) state = return (VBool False, Boolean, s2) \<and>
     evaluate H k (Lt left right) state = return (VBool False, Boolean, s2) \<and>
     evaluate H k (Gt left right) state = return (VBool False, Boolean, s2)"
  by simp

theorem unit_comparisons_witness:
  "evaluate rational_host 0 Ren EmptyState = return (VNone, Unit, EmptyState)
   \<and> evaluate rational_host 0 (Assign ''u'' Ren) EmptyState
       = return (VNone, Unit, State ''u'' (VNone, Unit) EmptyState)
   \<and> evaluate rational_host 0 (Eq Ren (Assign ''u'' Ren)) EmptyState
       = return (VBool True, Boolean, State ''u'' (VNone, Unit) EmptyState)
   \<and> evaluate rational_host 0 (Ne Ren (Assign ''u'' Ren)) EmptyState
       = return (VBool False, Boolean, State ''u'' (VNone, Unit) EmptyState)
   \<and> evaluate rational_host 0 (Lt Ren (Assign ''u'' Ren)) EmptyState
       = return (VBool False, Boolean, State ''u'' (VNone, Unit) EmptyState)"
  using unit_comparisons [of rational_host 0 Ren EmptyState EmptyState "Assign ''u'' Ren"
      "State ''u'' (VNone, Unit) EmptyState"]
  by (simp add: set_value_def)

lemma count_to_five_result:
  "evaluate H (Suc (Suc (Suc (Suc (Suc k))))) count_to_five_program EmptyState =
     return (VBool False, Boolean,
       State ''i'' (VInt 5, Integer) (State ''i'' (VInt 4, Integer)
         (State ''i'' (VInt 3, Integer) (State ''i'' (VInt 2, Integer)
           (State ''i'' (VInt 1, Integer) (State ''i'' (VInt 0, Integer) EmptyState))))))"
  by (simp add: count_to_five_program_def set_value_def)

text \<open>
  C5. \<open>While condition body\<close> evaluates the condition against the current state. When
  the condition returns false, the loop returns the condition's own value, type and
  state. When it returns true, the body is evaluated against the condition's state and
  the loop goes on from the state the body returns, its value and type dropped; an
  error of the body is the error of the loop. When the condition returns a type other
  than Boolean, InterpTypeError is raised. The counting program terminates: with a bound
  of five iterations or more it returns, and \<open>i\<close> is then bound to 5 with type Integer.
\<close>

theorem while_semantics:
  "(evaluate H k condition env = return (VBool False, Boolean, env1) \<longrightarrow>
      evaluate H k (While condition body) env = return (VBool False, Boolean, env1))
   \<and> (evaluate H (Suc k) condition env = return (VBool True, Boolean, env1) \<longrightarrow>
        (evaluate H (Suc k) body env1 = return (bv, bt, env2) \<longrightarrow>
           evaluate H (Suc k) (While condition body) env = evaluate H k (While condition body) env2)
      \<and> (evaluate H (Suc k) body env1 = raise e \<longrightarrow>
           evaluate H (Suc k) (While condition body) env = raise e))
   \<and> (evaluate H k condition env = return (cv, ct, env1) \<and> ct \<noteq> Boolean \<longrightarrow>
      evaluate H k (While condition body) env = raise InterpTypeError)
   \<and> (5 \<le> k \<longrightarrow>
        (\<exists>env'. run_stimpl H k count_to_five_program = return (VBool False, Boolean, env')
           \<and> get_value env' ''i'' = Some (VInt 5, Integer)))"
proof -
  have "\<exists>env'. run_stimpl H k count_to_five_program = return (VBool False, Boolean, env')
           \<and> get_value env' ''i'' = Some (VInt 5, Integer)" if "5 \<le> k"
  proof -
    from that have k: "k = Suc (Suc (Suc (Suc (Suc (k - 5)))))"
      by arith
    show ?thesis
      by (subst k) (simp add: run_stimpl_def count_to_five_result)
  qed
  then show ?thesis by simp
qed

theorem while_semantics_witness:
  "evaluate rational_host 1 (Lt (Variable ''i'') (IntLiteral 1)) (State ''i'' (VInt 0, Integer) EmptyState)
     = return (VBool True, Boolean, State ''i'' (VInt 0, Integer) EmptyState)
   \<and> evaluate rational_host 1 (While (Lt (Variable ''i'') (IntLiteral 1))
         (Assign ''i'' (Add (Variable ''i'') (IntLiteral 1)))) (State ''i'' (VInt 0, Integer) EmptyState)
     = return (VBool False, Boolean,
         State ''i'' (VInt 1, Integer) (State ''i'' (VInt 0, Integer) EmptyState))
   \<and> evaluate rational_host 0 (While (IntLiteral 1) Ren) EmptyState = raise InterpTypeError
   \<and> run_stimpl rational_host 5 count_to_five_program
     = return (VBool False, Boolean,
       State ''i'' (VInt 5, Integer) (State ''i'' (VInt 4, Integer)
         (State ''i'' (VInt 3, Integer) (State ''i'' (VInt 2, Integer)
           (State ''i'' (VInt 1, Integer) (State ''i'' (VInt 0, Integer) EmptyState))))))"
proof -
  have five: "(5::nat) = Suc (Suc (Suc (Suc (Suc 0))))" by simp
  have one: "(1::nat) = Suc 0" by simp
  show ?thesis
    using while_semantics [where H = rational_host and k = 0
        and condition = "Lt (Variable ''i'') (IntLiteral 1)"
        and body = "Assign ''i'' (Add (Variable ''i'') (IntLiteral 1))"
        and env = "State ''i'' (VInt 0, Integer) EmptyState"
        and ?env1.0 = "State ''i'' (VInt 0, Integer) EmptyState"
        and bv = "VInt 1" and bt = Integer
        and ?env2.0 = "State ''i'' (VInt 1, Integer) (State ''i'' (VInt 0, Integer) EmptyState)"]
      while_semantics [where H = rational_host and k = 0
        and condition = "IntLiteral 1" and body = Ren and env = EmptyState
        and cv = "VInt 1" and ct = Integer and ?env1.0 = EmptyState]
      while_semantics [where H = rational_host and k = 5]
    unfolding run_stimpl_def five one
    by (simp add: count_to_five_result set_value_def)
qed

text \<open>
  C6. \<open>Variable name\<close> against \<open>env\<close> returns the value and type that \<open>get_value\<close> finds,
  which are those of the newest binding of \<open>name\<close>, together with \<open>env\<close> itself; when
  \<open>name\<close> has no binding (in particular in the empty state) InterpSyntaxError is raised
  and there is no result.
\<close>

theorem variable_lookup:
  "(get_value env name = None \<longrightarrow>
      evaluate H k (Variable name) env = raise InterpSyntaxError)
   \<and> (get_value env name = Some (v, t) \<longrightarrow>
      evaluate H k (Variable name) env = return (v, t, env))
   \<and> get_value (State name (v, t) older) name = Some (v, t)
   \<and> (n \<noteq> name \<longrightarrow> get_value (State n (v, t) older) name = get_value older name)
   \<and> evaluate H k (Variable name) EmptyState = raise InterpSyntaxError
   \<and> run_stimpl H k (Variable name) = raise InterpSyntaxError"
  by (simp add: run_stimpl_def)

theorem variable_lookup_witness:
  "get_value (State ''x'' (VInt 2, Integer) (State ''x'' (VInt 1, Integer) EmptyState)) ''x''
     = Some (VInt 2, Integer)
   \<and> evaluate rational_host 0 (Variable ''x'')
        (State ''x'' (VInt 2, Integer) (State ''x'' (VInt 1, Integer) EmptyState))
       = return (VInt 2, Integer,
                 State ''x'' (VInt 2, Integer) (State ''x'' (VInt 1, Integer) EmptyState))
   \<and> get_value (State ''x'' (VInt 2, Integer) EmptyState) ''y'' = None
   \<and> evaluate rational_host 0 (Variable ''y'') (State ''x'' (VInt 2, Integer) EmptyState)
       = raise InterpSyntaxError"
  using variable_lookup [of "State ''x'' (VInt 2, Integer) (State ''x'' (VInt 1, Integer) EmptyState)"
      "''x''" rational_host 0 "VInt 2" Integer]
    variable_lookup [of "State ''x'' (VInt 2, Integer) EmptyState" "''y''" rational_host 0]
  by simp

text \<open>
  C7. The state is persistent. On the object store, \<open>set_value\<close> allocates one new
  object and changes no object that exists; the new object represents the old state
  with the binding put at its head, and its \<^verbatim>\<open>next_state\<close> is the old state. The old
  reference still represents the state it did, so \<open>get_value\<close> from it returns exactly
  what it returned before, for every name (in particular for \<open>x\<close> after
  \<open>set_value(x, 1, Integer)\<close>). \<open>get_value\<close> on the store finishes and returns what
  \<open>get_value\<close> on the represented state returns: the first binding of the name, scanning
  from the head, or \<^verbatim>\<open>None\<close> when the empty state is reached.
\<close>

theorem state_persistence:
  assumes "represents store env s"
    and "store_set_value store env n v t = (store', env2)"
  shows "length store' = Suc (length store)
   \<and> (\<forall>a < length store. store' ! a = store ! a)
   \<and> store' ! env2 = State_object n (v, t) env
   \<and> represents store' env2 (set_value s n v t)
   \<and> next_state (set_value s n v t) = s
   \<and> represents store' env s
   \<and> store_get_value fuel store' env name = store_get_value fuel store env name
   \<and> store_get_value (Suc (length (bindings s))) store env name = Some (get_value s name)
   \<and> get_value s name = map_option snd (find (\<lambda>(n', b). n' = name) (bindings s))
   \<and> get_value (set_value s n v t) name = (if n = name then Some (v, t) else get_value s name)
   \<and> get_value EmptyState name = None"
proof -
  from assms(2) have store': "store' = store @ [State_object n (v, t) env]"
    and env2: "env2 = length store"
    by (simp_all add: store_set_value_def)
  have old: "represents store' env s"
    unfolding store' using assms(1) by (rule represents_append)
  have new: "represents store' env2 (set_value s n v t)"
    unfolding set_value_def
    by (rule represents.represents_state [where nxt = env]) (simp_all add: store' env2 old [unfolded store'])
  have same: "store_get_value fuel store' env name = store_get_value fuel store env name"
    unfolding store' using assms(1) by (rule store_get_value_append)
  have finishes: "store_get_value (Suc (length (bindings s))) store env name = Some (get_value s name)"
    using assms(1) by (rule store_get_value_represents) simp
  show ?thesis
    using old new same finishes get_value_first_binding [of s name]
    by (simp add: store' env2 nth_append set_value_def)
qed

theorem state_persistence_witness:
  "represents [EmptyState_object :: rat state_object] 0 EmptyState
   \<and> store_set_value [EmptyState_object :: rat state_object] 0 ''x'' (VInt 1) Integer
       = ([EmptyState_object, State_object ''x'' (VInt 1, Integer) 0], 1)
   \<and> store_get_value 2 [EmptyState_object :: rat state_object] 0 ''x'' = Some None
   \<and> store_get_value 2 [EmptyState_object :: rat state_object, State_object ''x'' (VInt 1, Integer) 0] 0 ''x''
       = Some None
   \<and> represents [EmptyState_object :: rat state_object, State_object ''x'' (VInt 1, Integer) 0] 1
       (State ''x'' (VInt 1, Integer) EmptyState)"
proof -
  have r: "represents [EmptyState_object :: rat state_object] 0 EmptyState"
    by (rule represents.represents_empty) simp_all
  have s: "store_set_value [EmptyState_object :: rat state_object] 0 ''x'' (VInt 1) Integer
       = ([EmptyState_object, State_object ''x'' (VInt 1, Integer) 0], 1)"
    by (simp add: store_set_value_def)
  have two: "(2::nat) = Suc (Suc 0)" by simp
  show ?thesis
    using r s state_persistence [OF r s, where fuel = 2 and name = "''x''"]
    by (simp add: set_value_def two)
qed

text \<open>
  C8. A sequence (or program) with no element returns \<^verbatim>\<open>None\<close> with type Unit and the
  state it was given. With elements, they are evaluated in order, each against the state
  returned by the one before: the result of \<open>exprs @ [expr]\<close> is the result of \<open>expr\<close>
  against the state that \<open>exprs\<close> returns, and for a sequence with more than one element
  the first element is evaluated against the incoming state and the rest against the
  state it returns. When the elements so far raise, every longer sequence raises the same
  error whatever follows: no later element is evaluated and nothing is returned.
\<close>

theorem sequence_semantics:
  "evaluate H k (Sequence []) env = return (VNone, Unit, env)
   \<and> evaluate H k (Program []) env = return (VNone, Unit, env)
   \<and> evaluate H k (Sequence (exprs @ [expr])) env =
       and_then (evaluate H k (Sequence exprs) env) (\<lambda>(v, t, env1). evaluate H k expr env1)
   \<and> evaluate H k (Program (exprs @ [expr])) env =
       and_then (evaluate H k (Program exprs) env) (\<lambda>(v, t, env1). evaluate H k expr env1)
   \<and> (exprs \<noteq> [] \<longrightarrow>
        evaluate H k (Sequence (expr # exprs)) env =
          and_then (evaluate H k expr env) (\<lambda>(v, t, env1). evaluate H k (Sequence exprs) env1)
      \<and> evaluate H k (Program (expr # exprs)) env =
          and_then (evaluate H k expr env) (\<lambda>(v, t, env1). evaluate H k (Program exprs) env1))
   \<and> (evaluate H k (Sequence exprs) env = raise e \<longrightarrow>
        evaluate H k (Sequence (exprs @ rest)) env = raise e)
   \<and> (evaluate H k (Program exprs) env = raise e \<longrightarrow>
        evaluate H k (Program (exprs @ rest)) env = raise e)"
proof -
  have tail: "and_then m (eval_exprs H k exprs) =
      and_then m (\<lambda>(v, t, env1). eval_exprs H k exprs (VNone, Unit, env1))"
    if "exprs \<noteq> []" for m
  proof (cases m rule: outcome_cases)
    case (Returns x)
    obtain v t env1 where "x = (v, t, env1)" by (cases x)
    with Returns that show ?thesis
      using eval_exprs_nonempty_acc [of exprs H k v t env1 VNone Unit] by simp
  qed simp_all
  have snoc: "eval_exprs H k (exprs @ [expr]) (VNone, Unit, env) =
      and_then (eval_exprs H k exprs (VNone, Unit, env)) (\<lambda>(v, t, env1). evaluate H k expr env1)"
    by (rule eval_exprs_snoc)
  have app: "eval_exprs H k exprs (VNone, Unit, env) = raise e \<Longrightarrow>
      eval_exprs H k (exprs @ rest) (VNone, Unit, env) = raise e"
    by (simp add: eval_exprs_append)
  have cons: "exprs \<noteq> [] \<Longrightarrow> eval_exprs H k (expr # exprs) (VNone, Unit, env) =
      and_then (evaluate H k expr env) (\<lambda>(v, t, env1). eval_exprs H k exprs (VNone, Unit, env1))"
    using tail [of "evaluate H k expr env"] by (simp add: eta_contract_eq)
  show ?thesis
    using snoc app cons by simp
qed

theorem sequence_semantics_witness:
  "[Variable ''x''] \<noteq> []
   \<and> evaluate rational_host 0 (Sequence [Assign ''x'' (IntLiteral 3), Variable ''x'']) EmptyState
       = return (VInt 3, Integer, State ''x'' (VInt 3, Integer) EmptyState)
   \<and> evaluate rational_host 0 (Sequence [Variable ''y'']) EmptyState = raise InterpSyntaxError
   \<and> evaluate rational_host 0 (Sequence ([Variable ''y''] @ [Assign ''y'' (IntLiteral 1)])) EmptyState
       = raise InterpSyntaxError"
  using sequence_semantics [where H = rational_host and k = 0 and env = EmptyState
      and exprs = "[Variable ''x'']" and expr = "Assign ''x'' (IntLiteral 3)"]
    sequence_semantics [where H = rational_host and k = 0 and env = EmptyState
      and exprs = "[Variable ''y'']" and e = InterpSyntaxError
      and rest = "[Assign ''y'' (IntLiteral 1)]"]
  by (simp add: set_value_def)

text \<open>
  C9. \<open>Divide\<close> on two Integer operands returns the floor division of the values with
  type Integer; on two FloatingPoint operands it returns what the host's true division
  returns, with type FloatingPoint. \<open>divide(int(7), int(2))\<close> is \<open>(3, Integer)\<close>, and
  \<open>divide(float(7.0), float(2.0))\<close> is the host's quotient of the two floats, which is
  \<open>7/2\<close> for the exact host. A zero divisor is not turned into InterpSyntaxError or
  InterpTypeError: the host's ZeroDivisionError comes out.
\<close>

theorem divide_semantics:
  "(evaluate H k left state = return (VInt a, Integer, s1) \<and>
    evaluate H k right s1 = return (VInt b, Integer, s2) \<longrightarrow>
      evaluate H k (Divide left right) state =
        (if b = 0 then raise ZeroDivisionError else return (VInt (a div b), Integer, s2)))
   \<and> (evaluate H k left state = return (VFloat x, FloatingPoint, s1) \<and>
    evaluate H k right s1 = return (VFloat y, FloatingPoint, s2) \<longrightarrow>
      evaluate H k (Divide left right) state =
        (case f_truediv H x y of
           None \<Rightarrow> raise ZeroDivisionError
         | Some q \<Rightarrow> return (VFloat q, FloatingPoint, s2)))
   \<and> evaluate H k (Divide (IntLiteral 7) (IntLiteral 2)) state = return (VInt 3, Integer, state)
   \<and> evaluate rational_host k (Divide (FloatingPointLiteral 7) (FloatingPointLiteral 2)) rstate
       = return (VFloat (7 / 2), FloatingPoint, rstate)
   \<and> evaluate H k (Divide (IntLiteral a) (IntLiteral 0)) state = raise ZeroDivisionError
   \<and> evaluate rational_host k (Divide (FloatingPointLiteral x') (FloatingPointLiteral 0)) rstate
       = raise ZeroDivisionError
   \<and> ZeroDivisionError \<noteq> InterpSyntaxError \<and> ZeroDivisionError \<noteq> InterpTypeError"
  by (simp add: rational_host_def split: option.splits)

theorem divide_semantics_witness:
  "evaluate rational_host 0 (Variable ''a'')
      (State ''b'' (VInt 2, Integer) (State ''a'' (VInt (-7), Integer) EmptyState))
     = return (VInt (-7), Integer,
               State ''b'' (VInt 2, Integer) (State ''a'' (VInt (-7), Integer) EmptyState))
   \<and> evaluate rational_host 0 (Divide (Variable ''a'') (Variable ''b''))
      (State ''b'' (VInt 2, Integer) (State ''a'' (VInt (-7), Integer) EmptyState))
     = return (VInt (-4), Integer,
               State ''b'' (VInt 2, Integer) (State ''a'' (VInt (-7), Integer) EmptyState))
   \<and> evaluate rational_host 0 (Divide (FloatingPointLiteral 1) (FloatingPointLiteral 4)) EmptyState
     = return (VFloat (1 / 4), FloatingPoint, EmptyState)"
  using divide_semantics [where H = rational_host and k = 0 and left = "Variable ''a''"
      and right = "Variable ''b''" and a = "-7" and b = 2
      and state = "State ''b'' (VInt 2, Integer) (State ''a'' (VInt (-7), Integer) EmptyState)"
      and ?s1.0 = "State ''b'' (VInt 2, Integer) (State ''a'' (VInt (-7), Integer) EmptyState)"
      and ?s2.0 = "State ''b'' (VInt 2, Integer) (State ''a'' (VInt (-7), Integer) EmptyState)"]
    divide_semantics [where H = rational_host and k = 0 and left = "FloatingPointLiteral 1"
      and right = "FloatingPointLiteral 4" and x = 1 and y = 4
      and state = EmptyState and ?s1.0 = EmptyState and ?s2.0 = EmptyState]
  by (simp add: rational_host_def)

text \<open>
  C10. \<open>And\<close> and \<open>Or\<close> do not short-circuit. When the left operand returns the Boolean
  that already decides the result (false for \<open>And\<close>, true for \<open>Or\<close>), the right operand
  is still evaluated, against the state the left one returned: the state of the result
  is the one the right operand returns, a right operand of another type raises
  InterpTypeError, and a right operand that raises makes the whole construct raise.
  The same holds whatever the left operand returns: the right operand is always
  evaluated against the left one's state, what it does when it does not return is what
  the construct does, and a right operand whose type is not Boolean raises
  InterpTypeError for every value and type of the left operand. On two Booleans the
  result is their conjunction (disjunction), with the state of the right operand.
\<close>

theorem and_or_evaluate_right:
  "(evaluate H k left state = return (VBool False, Boolean, s1) \<longrightarrow>
      (evaluate H k right s1 = return (VBool b, Boolean, s2) \<longrightarrow>
         evaluate H k (And left right) state = return (VBool False, Boolean, s2))
    \<and> (evaluate H k right s1 = return (rv, rt, s2) \<and> rt \<noteq> Boolean \<longrightarrow>
         evaluate H k (And left right) state = raise InterpTypeError)
    \<and> (evaluate H k right s1 = raise e \<longrightarrow>
         evaluate H k (And left right) state = raise e)
    \<and> (evaluate H k right s1 = None \<longrightarrow> evaluate H k (And left right) state = None))
   \<and> (evaluate H k left state = return (VBool True, Boolean, s1) \<longrightarrow>
      (evaluate H k right s1 = return (VBool b, Boolean, s2) \<longrightarrow>
         evaluate H k (Or left right) state = return (VBool True, Boolean, s2))
    \<and> (evaluate H k right s1 = return (rv, rt, s2) \<and> rt \<noteq> Boolean \<longrightarrow>
         evaluate H k (Or left right) state = raise InterpTypeError)
    \<and> (evaluate H k right s1 = raise e \<longrightarrow>
         evaluate H k (Or left right) state = raise e)
    \<and> (evaluate H k right s1 = None \<longrightarrow> evaluate H k (Or left right) state = None))
   \<and> (evaluate H k left state = return (lv, lt, s1) \<longrightarrow>
      (evaluate H k right s1 = None \<longrightarrow>
         evaluate H k (And left right) state = None
         \<and> evaluate H k (Or left right) state = None)
    \<and> (evaluate H k right s1 = raise e \<longrightarrow>
         evaluate H k (And left right) state = raise e
         \<and> evaluate H k (Or left right) state = raise e)
    \<and> (evaluate H k right s1 = return (rv, rt, s2) \<and> rt \<noteq> Boolean \<longrightarrow>
         evaluate H k (And left right) state = raise InterpTypeError
         \<and> evaluate H k (Or left right) state = raise InterpTypeError))
   \<and> (evaluate H k left state = return (VBool a, Boolean, s1) \<and>
       evaluate H k right s1 = return (VBool b, Boolean, s2) \<longrightarrow>
         evaluate H k (And left right) state = return (VBool (a \<and> b), Boolean, s2)
         \<and> evaluate H k (Or left right) state = return (VBool (a \<or> b), Boolean, s2))"
proof -
  have other_type: "evaluate H k (And left right) state = raise InterpTypeError
      \<and> evaluate H k (Or left right) state = raise InterpTypeError"
    if "evaluate H k left state = return (lv, lt, s1)"
      and "evaluate H k right s1 = return (rv, rt, s2)" and "rt \<noteq> Boolean"
    using that by (cases lt) simp_all
  show ?thesis
    using other_type by simp
qed

theorem and_or_evaluate_right_witness:
  "evaluate rational_host 0 (BooleanLiteral False) EmptyState
     = return (VBool False, Boolean, EmptyState)
   \<and> evaluate rational_host 0 (Assign ''x'' (BooleanLiteral True)) EmptyState
     = return (VBool True, Boolean, State ''x'' (VBool True, Boolean) EmptyState)
   \<and> evaluate rational_host 0 (And (BooleanLiteral False) (Assign ''x'' (BooleanLiteral True)))
        EmptyState
     = return (VBool False, Boolean, State ''x'' (VBool True, Boolean) EmptyState)
   \<and> evaluate rational_host 0 (And (BooleanLiteral False) (IntLiteral 1)) EmptyState
     = raise InterpTypeError
   \<and> evaluate rational_host 0 (Or (BooleanLiteral True) (Variable ''x'')) EmptyState
     = raise InterpSyntaxError
   \<and> evaluate rational_host 0 (And (BooleanLiteral True) (IntLiteral 1)) EmptyState
     = raise InterpTypeError
   \<and> evaluate rational_host 0 (Or (BooleanLiteral False) (IntLiteral 1)) EmptyState
     = raise InterpTypeError
   \<and> evaluate rational_host 0 (And (BooleanLiteral True) (Assign ''x'' (BooleanLiteral True)))
        EmptyState
     = return (VBool True, Boolean, State ''x'' (VBool True, Boolean) EmptyState)
   \<and> evaluate rational_host 0 (Or (BooleanLiteral False) (Assign ''x'' (BooleanLiteral True)))
        EmptyState
     = return (VBool True, Boolean, State ''x'' (VBool True, Boolean) EmptyState)"
  using and_or_evaluate_right [where H = rational_host and k = 0
      and left = "BooleanLiteral True" and state = EmptyState and ?s1.0 = EmptyState
      and lv = "VBool True" and lt = Boolean
      and right = "IntLiteral 1" and rv = "VInt 1" and rt = Integer and ?s2.0 = EmptyState]
    and_or_evaluate_right [where H = rational_host and k = 0
      and left = "BooleanLiteral False" and state = EmptyState and ?s1.0 = EmptyState
      and a = False and right = "Assign ''x'' (BooleanLiteral True)" and b = True
      and ?s2.0 = "State ''x'' (VBool True, Boolean) EmptyState"]
    and_or_evaluate_right [where H = rational_host and k = 0
      and left = "BooleanLiteral False" and state = EmptyState and ?s1.0 = EmptyState
      and right = "Assign ''x'' (BooleanLiteral True)" and b = True
      and ?s2.0 = "State ''x'' (VBool True, Boolean) EmptyState"]
    and_or_evaluate_right [where H = rational_host and k = 0
      and left = "BooleanLiteral False" and state = EmptyState and ?s1.0 = EmptyState
      and right = "IntLiteral 1" and rv = "VInt 1" and rt = Integer and ?s2.0 = EmptyState]
    and_or_evaluate_right [where H = rational_host and k = 0
      and left = "BooleanLiteral True" and state = EmptyState and ?s1.0 = EmptyState
      and right = "Variable ''x''" and e = InterpSyntaxError]
  by (simp add: set_value_def)

end
